theory Spec2Isabelle
  imports Main "HOL-Library.Word"
begin

unbundle bit_operations_syntax

section \<open>Delegated-event (SDEI) support of arch/arm64/kernel/sdei.c\<close>

text \<open>
  The C identifiers \<open>_free_sdei_stack\<close>, \<open>_init_sdei_stack\<close>, \<open>_on_sdei_stack\<close> and
  \<open>_sdei_handler\<close> start with an underscore, which an Isabelle name cannot; they are
  written with a leading \<open>u_\<close>, and \<open>__sdei_handler\<close> with a leading \<open>uu_\<close>.
\<close>

type_synonym u64 = "64 word"
type_synonym u32 = "32 word"

subsection \<open>Constants and build configuration that the file takes from headers\<close>

text \<open>
  sdei.c uses macros, enumerators and predicates that are declared in headers that are
  not among the verified sources. None of their values is fixed here: they are the fields of a
  record that every function takes as a parameter. \<open>int\<close> values are 32-bit words,
  \<open>unsigned long\<close> values 64-bit words. \<open>cpu_possible_mask\<close> is the bitmap that
  \<open>for_each_possible_cpu\<close> walks, \<open>sdei_asm_handler\<close> the address of
  \<open>__sdei_asm_handler\<close>, \<open>cpu_has_pan\<close> the condition under which the ALTERNATIVE
  of \<open>_sdei_handler\<close> is patched to SET_PSTATE_PAN(1).

  \<open>is_hyp_mode_available\<close> and \<open>is_kernel_in_hyp_mode\<close> (asm/virt.h) are read as the comment
  in \<open>sdei_arch_get_entry_point\<close> reads them: the first holds when the kernel was booted
  at EL2, the higher privilege level, and is false for a kernel booted at EL1; the second
  holds when the kernel runs at EL2. So "booted at EL2 and dropped to EL1" is
  \<open>is_hyp_mode_available\<close> without \<open>is_kernel_in_hyp_mode\<close>.
\<close>

record kconfig =
  CONFIG_VMAP_STACK :: bool
  SDEI_STACK_SIZE :: u64
  ENOMEM :: u32
  CONDUIT_HVC :: u32
  SDEI_EXIT_HVC :: u64
  SDEI_EXIT_SMC :: u64
  sdei_asm_handler :: u64
  SDEI_EV_HANDLED :: u64
  SDEI_EV_FAILED :: u64
  PSR_MODE32_BIT :: u32
  PSR_MODE_MASK :: u32
  PSR_I_BIT :: u32
  cpu_has_pan :: bool
  is_hyp_mode_available :: bool
  is_kernel_in_hyp_mode :: bool
  cpu_possible_mask :: "bool list"

text \<open>\<open>for_each_possible_cpu\<close>: the set bits of the mask, in increasing order.\<close>

definition possible_cpus :: "kconfig \<Rightarrow> nat list" where
  "possible_cpus k =
     filter (\<lambda>cpu. cpu_possible_mask k ! cpu) [0 ..< length (cpu_possible_mask k)]"

subsection \<open>Kernel state touched by the stack arena and the entry-point resolver\<close>

datatype stack_var = sdei_stack_normal_ptr | sdei_stack_critical_ptr

text \<open>
  \<open>percpu s v cpu\<close> is \<open>per_cpu(v, cpu)\<close>, a pointer with 0 for NULL.
  \<open>vmalloc_live\<close> is the set of regions handed out by the allocator and not yet freed,
  \<open>nalloc\<close> counts the allocation requests made so far, \<open>klog\<close> collects the
  messages of \<open>pr_err\<close>, each with the prefix of \<open>pr_fmt\<close>.
\<close>

record kernel =
  percpu :: "stack_var \<Rightarrow> nat \<Rightarrow> u64"
  vmalloc_live :: "u64 set"
  nalloc :: nat
  sdei_exit_mode :: u64
  klog :: "string list"

text \<open>
  Modelled from the spec: \<open>vfree\<close> (mm/vmalloc.c) is not under src/. It releases the
  region it is given: the region leaves the set of live regions.
\<close>

definition vfree :: "u64 \<Rightarrow> kernel \<Rightarrow> kernel" where
  "vfree p s = s\<lparr>vmalloc_live := vmalloc_live s - {p}\<rparr>"

text \<open>
  Modelled from the spec: \<open>arch_alloc_vmap_stack\<close> (asm/vmap_stack.h) is not under src/.
  An allocation may fail. The outcome of the n-th request is given by the parameter
  \<open>alloc\<close>: 0 (NULL) for a failure, the base address of the new region otherwise, which
  then is live.
\<close>

definition arch_alloc_vmap_stack :: "(nat \<Rightarrow> u64) \<Rightarrow> kernel \<Rightarrow> u64 \<times> kernel" where
  "arch_alloc_vmap_stack alloc s =
     (let p = alloc (nalloc s) in
      (p, s\<lparr>vmalloc_live := (if p = 0 then vmalloc_live s else insert p (vmalloc_live s)),
             nalloc := Suc (nalloc s)\<rparr>))"

definition pr_err :: "string \<Rightarrow> kernel \<Rightarrow> kernel" where
  "pr_err msg s = s\<lparr>klog := klog s @ [''sdei: '' @ msg]\<rparr>"

definition set_per_cpu :: "stack_var \<Rightarrow> nat \<Rightarrow> u64 \<Rightarrow> kernel \<Rightarrow> kernel" where
  "set_per_cpu ptr cpu p s = s\<lparr>percpu := (percpu s)(ptr := (percpu s ptr)(cpu := p))\<rparr>"

subsection \<open>The stack arena\<close>

definition u_free_sdei_stack :: "stack_var \<Rightarrow> nat \<Rightarrow> kernel \<Rightarrow> kernel" where
  "u_free_sdei_stack ptr cpu s =
     (let p = percpu s ptr cpu in
      if p \<noteq> 0 then vfree p (set_per_cpu ptr cpu 0 s) else s)"

definition free_sdei_stacks :: "kconfig \<Rightarrow> kernel \<Rightarrow> kernel" where
  "free_sdei_stacks k s =
     fold (\<lambda>cpu s. u_free_sdei_stack sdei_stack_critical_ptr cpu
                     (u_free_sdei_stack sdei_stack_normal_ptr cpu s))
          (possible_cpus k) s"

definition u_init_sdei_stack ::
  "(nat \<Rightarrow> u64) \<Rightarrow> kconfig \<Rightarrow> stack_var \<Rightarrow> nat \<Rightarrow> kernel \<Rightarrow> u32 \<times> kernel" where
  "u_init_sdei_stack alloc k ptr cpu s =
     (case arch_alloc_vmap_stack alloc s of (p, s1) \<Rightarrow>
        if p = 0 then (- ENOMEM k, s1)
        else (0, set_per_cpu ptr cpu p s1))"

text \<open>The loop of \<open>init_sdei_stacks\<close>; each \<open>break\<close> leaves it with the error.\<close>

fun init_sdei_stacks_loop ::
  "(nat \<Rightarrow> u64) \<Rightarrow> kconfig \<Rightarrow> nat list \<Rightarrow> kernel \<Rightarrow> u32 \<times> kernel" where
  "init_sdei_stacks_loop alloc k [] s = (0, s)"
| "init_sdei_stacks_loop alloc k (cpu # cpus) s =
     (case u_init_sdei_stack alloc k sdei_stack_normal_ptr cpu s of (err, s1) \<Rightarrow>
        if err \<noteq> 0 then (err, s1)
        else (case u_init_sdei_stack alloc k sdei_stack_critical_ptr cpu s1 of (err, s2) \<Rightarrow>
          if err \<noteq> 0 then (err, s2)
          else init_sdei_stacks_loop alloc k cpus s2))"

definition init_sdei_stacks :: "(nat \<Rightarrow> u64) \<Rightarrow> kconfig \<Rightarrow> kernel \<Rightarrow> u32 \<times> kernel" where
  "init_sdei_stacks alloc k s =
     (case init_sdei_stacks_loop alloc k (possible_cpus k) s of (err, s1) \<Rightarrow>
        if err \<noteq> 0 then (err, free_sdei_stacks k s1) else (err, s1))"

subsection \<open>The membership test\<close>

text \<open>\<open>cpu\<close> is the processor that runs the test (\<open>raw_cpu_read\<close>).\<close>

definition u_on_sdei_stack :: "kconfig \<Rightarrow> kernel \<Rightarrow> nat \<Rightarrow> u64 \<Rightarrow> bool" where
  "u_on_sdei_stack k s cpu sp =
     (if \<not> CONFIG_VMAP_STACK k then False
      else
        let low = percpu s sdei_stack_critical_ptr cpu;
            high = low + SDEI_STACK_SIZE k
        in if low \<le> sp \<and> sp < high then True
           else
             let low = percpu s sdei_stack_normal_ptr cpu;
                 high = low + SDEI_STACK_SIZE k
             in low \<le> sp \<and> sp < high)"

subsection \<open>The entry-point resolver\<close>

definition sdei_arch_get_entry_point ::
  "(nat \<Rightarrow> u64) \<Rightarrow> kconfig \<Rightarrow> u32 \<Rightarrow> kernel \<Rightarrow> u64 \<times> kernel" where
  "sdei_arch_get_entry_point alloc k conduit s =
     (if is_hyp_mode_available k \<and> \<not> is_kernel_in_hyp_mode k
      then (0, pr_err (''Not supported on this hardware/boot configuration'' @ [CHR 0x0A]) s)
      else if CONFIG_VMAP_STACK k then
        (case init_sdei_stacks alloc k s of (err, s1) \<Rightarrow>
           if err \<noteq> 0 then (0, s1)
           else (sdei_asm_handler k,
                 s1\<lparr>sdei_exit_mode :=
                      (if conduit = CONDUIT_HVC k then SDEI_EXIT_HVC k
                       else SDEI_EXIT_SMC k)\<rparr>))
      else (sdei_asm_handler k,
            s\<lparr>sdei_exit_mode :=
                 (if conduit = CONDUIT_HVC k then SDEI_EXIT_HVC k
                  else SDEI_EXIT_SMC k)\<rparr>))"

subsection \<open>The state of the processor that takes a delegated event\<close>

text \<open>
  \<open>struct pt_regs\<close> (asm/ptrace.h) is the interrupted context: the general-purpose
  registers \<open>regs[31]\<close>, \<open>sp\<close>, \<open>pc\<close> and \<open>pstate\<close>.
\<close>

record pt_regs =
  regs :: "u64 list"
  sp :: u64
  pc :: u64
  pstate :: u64

datatype kevent = NmiEnter | NmiExit | Warn string

text \<open>
  The system registers that \<open>_sdei_handler\<close> reads, PSTATE.PAN, the NMI part of the
  preemption count as the flag \<open>nmi\<close>, and the trace of the accounting calls and
  warnings made so far.
\<close>

record cpu =
  elr_el1 :: u64
  CurrentEL :: u64
  vbar_el1 :: u64
  pstate_pan :: bool
  nmi :: bool
  trace :: "kevent list"

text \<open>
  Modelled from the spec: \<open>in_nmi\<close>, \<open>nmi_enter\<close> and \<open>nmi_exit\<close> (linux/hardirq.h) are
  not under src/. \<open>in_nmi\<close> asks whether the processor is flagged as being in an NMI-like
  context, \<open>nmi_enter\<close> flags it and \<open>nmi_exit\<close> unflags it.
\<close>

definition in_nmi :: "cpu \<Rightarrow> bool" where
  "in_nmi c = nmi c"

definition nmi_enter :: "cpu \<Rightarrow> cpu" where
  "nmi_enter c = c\<lparr>nmi := True, trace := trace c @ [NmiEnter]\<rparr>"

definition nmi_exit :: "cpu \<Rightarrow> cpu" where
  "nmi_exit c = c\<lparr>nmi := False, trace := trace c @ [NmiExit]\<rparr>"

definition pr_warn :: "string \<Rightarrow> cpu \<Rightarrow> cpu" where
  "pr_warn msg c = c\<lparr>trace := trace c @ [Warn (''sdei: '' @ msg)]\<rparr>"

text \<open>
  Modelled from the spec: the macro \<open>interrupts_enabled\<close> (asm/ptrace.h) is not under
  src/. Interrupts were enabled in the saved state when the interrupt-mask bit
  \<open>PSR_I_BIT\<close> of the saved \<open>pstate\<close> is clear.
\<close>

definition interrupts_enabled :: "kconfig \<Rightarrow> pt_regs \<Rightarrow> bool" where
  "interrupts_enabled k r = (pstate r AND ucast (PSR_I_BIT k) = 0)"

text \<open>
  The two collaborators of the dispatcher, both outside src/ and taken as parameters.
  \<open>sdei_api_event_context i\<close> is the value that the firmware query number \<open>i\<close> stores
  through its result pointer. \<open>sdei_event_handler arg r elr\<close> runs the callback registered
  for the event \<open>arg\<close> on the context \<open>r\<close>, which it receives by a pointer it may write
  through, with ELR_EL1 holding \<open>elr\<close>; it yields the callback's error code, the context
  as the callback leaves it, and the value of ELR_EL1 afterwards (which changes when the
  callback takes an exception).
\<close>

record 'e collab =
  sdei_api_event_context :: "nat \<Rightarrow> u64"
  sdei_event_handler :: "'e \<Rightarrow> pt_regs \<Rightarrow> u64 \<Rightarrow> u32 \<times> pt_regs \<times> u64"

subsection \<open>The dispatcher\<close>

text \<open>The loop that retrieves the \<open>clobbered_registers = 4\<close> leading registers.\<close>

definition retrieve_registers :: "'e collab \<Rightarrow> pt_regs \<Rightarrow> pt_regs" where
  "retrieve_registers col r =
     fold (\<lambda>i r. r\<lparr>regs := (regs r)[i := sdei_api_event_context col i]\<rparr>) [0 ..< 4] r"

text \<open>
  The value of the local \<open>kernel_mode\<close>: \<open>read_sysreg(CurrentEL) | 1\<close>, cut to 32 bits.
\<close>

definition dispatcher_mode :: "cpu \<Rightarrow> u32" where
  "dispatcher_mode c = ucast (CurrentEL c OR 1)"

text \<open>
  The value of the local \<open>mode\<close>:
  \<open>regs->pstate & (PSR_MODE32_BIT | PSR_MODE_MASK)\<close>, cut to 32 bits.
\<close>

definition interrupted_mode :: "kconfig \<Rightarrow> pt_regs \<Rightarrow> u32" where
  "interrupted_mode k r = ucast (pstate r AND ucast (PSR_MODE32_BIT k OR PSR_MODE_MASK k))"

definition u_sdei_handler ::
  "'e collab \<Rightarrow> kconfig \<Rightarrow> 'e \<Rightarrow> pt_regs \<times> cpu \<Rightarrow> u64 \<times> pt_regs \<times> cpu" where
  "u_sdei_handler col k arg rc =
     (case rc of (r, c) \<Rightarrow>
        let elr = elr_el1 c;
            kernel_mode = dispatcher_mode c;
            vbar = vbar_el1 c;
            r1 = retrieve_registers col r;
            c1 = c\<lparr>pstate_pan := (if cpu_has_pan k then True else pstate_pan c)\<rparr>
        in case sdei_event_handler col arg r1 (elr_el1 c1) of (err, r2, elr') \<Rightarrow>
             let c2 = c1\<lparr>elr_el1 := elr'\<rparr> in
             if err \<noteq> 0 then (SDEI_EV_FAILED k, r2, c2)
             else
               let c3 = (if elr \<noteq> elr_el1 c2
                         then pr_warn (''unsafe: exception during handler'' @ [CHR 0x0A]) c2
                         else c2);
                   mode = interrupted_mode k r2
               in if mode = kernel_mode \<and> \<not> interrupts_enabled k r2
                  then (SDEI_EV_HANDLED k, r2, c3)
                  else if mode = kernel_mode then (vbar + 0x280, r2, c3)
                  else if mode AND PSR_MODE32_BIT k \<noteq> 0 then (vbar + 0x680, r2, c3)
                  else (vbar + 0x480, r2, c3))"

subsection \<open>The reentrancy wrapper\<close>

definition uu_sdei_handler ::
  "'e collab \<Rightarrow> kconfig \<Rightarrow> 'e \<Rightarrow> pt_regs \<times> cpu \<Rightarrow> u64 \<times> pt_regs \<times> cpu" where
  "uu_sdei_handler col k arg rc =
     (case rc of (r, c) \<Rightarrow>
        let do_nmi_exit = \<not> in_nmi c;
            c1 = (if \<not> in_nmi c then nmi_enter c else c)
        in case u_sdei_handler col k arg (r, c1) of (ret, r2, c2) \<Rightarrow>
             (ret, r2, if do_nmi_exit then nmi_exit c2 else c2))"


text \<open>The calls of \<open>nmi_enter\<close> and \<open>nmi_exit\<close> recorded in the trace.\<close>

definition accounting_calls :: "cpu \<Rightarrow> kevent list" where
  "accounting_calls c = filter (\<lambda>e. e = NmiEnter \<or> e = NmiExit) (trace c)"

subsection \<open>The disposition as the specification words it\<close>

text \<open>
  The specification's step 6, as a function of the dispatcher's own mode, the vector
  base, the saved mode bits and the saved interrupt-enable flag. It is compared with
  \<open>u_sdei_handler\<close> below.
\<close>

definition spec_disposition :: "kconfig \<Rightarrow> u32 \<Rightarrow> u64 \<Rightarrow> u32 \<Rightarrow> bool \<Rightarrow> u64" where
  "spec_disposition k kernel_mode vbar mode irqs_enabled =
     (if mode = kernel_mode \<and> \<not> irqs_enabled then SDEI_EV_HANDLED k
      else if mode = kernel_mode then vbar + 0x280
      else if mode AND PSR_MODE32_BIT k \<noteq> 0 then vbar + 0x680
      else vbar + 0x480)"

subsection \<open>Concrete inputs\<close>

text \<open>
  A configuration with the values of the mainline arm64 headers, a three-processor
  machine, the kernel state at boot (static storage is zero) and after processor 0 was
  armed, and an allocator whose third request fails. They serve to evaluate the
  functions; no general theorem depends on them.
\<close>

definition example_config :: kconfig where
  "example_config =
     \<lparr>CONFIG_VMAP_STACK = True, SDEI_STACK_SIZE = 0x4000, ENOMEM = 12, CONDUIT_HVC = 2,
      SDEI_EXIT_HVC = 0, SDEI_EXIT_SMC = 1, sdei_asm_handler = 0xffff000008092000,
      SDEI_EV_HANDLED = 0, SDEI_EV_FAILED = 1,
      PSR_MODE32_BIT = 0x10, PSR_MODE_MASK = 0xf, PSR_I_BIT = 0x80,
      cpu_has_pan = True, is_hyp_mode_available = False, is_kernel_in_hyp_mode = False,
      cpu_possible_mask = [True, True, True]\<rparr>"

definition boot_kernel :: kernel where
  "boot_kernel =
     \<lparr>percpu = (\<lambda>v cpu. 0), vmalloc_live = {}, nalloc = 0, sdei_exit_mode = 0, klog = []\<rparr>"

definition armed_kernel :: kernel where
  "armed_kernel =
     \<lparr>percpu = (\<lambda>v cpu. if cpu = 0 then (case v of sdei_stack_normal_ptr \<Rightarrow> 0xffff000010000000
                                                  | sdei_stack_critical_ptr \<Rightarrow> 0xffff000010010000)
                         else 0),
      vmalloc_live = {0xffff000010000000, 0xffff000010010000}, nalloc = 2,
      sdei_exit_mode = 0, klog = []\<rparr>"

definition third_fails :: "nat \<Rightarrow> u64" where
  "third_fails n =
     (if n = 0 then 0xffff000010000000 else if n = 1 then 0xffff000010010000 else 0)"

text \<open>An allocator whose every request succeeds, with a new region each time.\<close>

definition never_fails :: "nat \<Rightarrow> u64" where
  "never_fails n = 0xffff000010000000 + 0x10000 * of_nat n"

text \<open>The boot state with a value in \<open>sdei_exit_mode\<close> that no conduit stands for.\<close>

definition marked_kernel :: kernel where
  "marked_kernel = boot_kernel\<lparr>sdei_exit_mode := 7\<rparr>"

text \<open>A configuration that booted at EL2 and runs the kernel at EL1.\<close>

definition no_hyp_config :: kconfig where
  "no_hyp_config = example_config\<lparr>is_hyp_mode_available := True\<rparr>"

text \<open>
  An interrupted kernel context (EL1h, interrupts masked), an interrupted 64-bit user
  context, the state of a processor at EL1, and four choices of the collaborators: a
  callback that succeeds, one that fails, one that fails after writing register 0 of the
  context, and one that succeeds after writing the saved \<open>pstate\<close>.
\<close>

definition example_regs :: pt_regs where
  "example_regs = \<lparr>regs = replicate 31 0x5a5a, sp = 0xffff000010003f00,
                    pc = 0xffff000008123456, pstate = 0x3c5\<rparr>"

definition user_regs :: pt_regs where
  "user_regs = \<lparr>regs = replicate 31 0x5a5a, sp = 0x7ffff000, pc = 0x400000, pstate = 0\<rparr>"

definition example_cpu :: cpu where
  "example_cpu = \<lparr>elr_el1 = 0xffff000008123456, CurrentEL = 4, vbar_el1 = 0xffff000008081000,
                   pstate_pan = False, nmi = False, trace = []\<rparr>"

definition ok_collab :: "unit collab" where
  "ok_collab = \<lparr>sdei_api_event_context = (\<lambda>i. 0x100 + of_nat i),
                 sdei_event_handler = (\<lambda>arg r elr. (0, r, elr))\<rparr>"

definition failing_collab :: "unit collab" where
  "failing_collab = \<lparr>sdei_api_event_context = (\<lambda>i. 0x100 + of_nat i),
                      sdei_event_handler = (\<lambda>arg r elr. (- 22, r, elr))\<rparr>"

definition clobbering_collab :: "unit collab" where
  "clobbering_collab =
     \<lparr>sdei_api_event_context = (\<lambda>i. 0x100 + of_nat i),
      sdei_event_handler = (\<lambda>arg r elr. (- 22, r\<lparr>regs := (regs r)[0 := 0xdead]\<rparr>, elr))\<rparr>"

definition remasking_collab :: "unit collab" where
  "remasking_collab =
     \<lparr>sdei_api_event_context = (\<lambda>i. 0x100 + of_nat i),
      sdei_event_handler = (\<lambda>arg r elr. (0, r\<lparr>pstate := 0x3c5\<rparr>, elr))\<rparr>"

section \<open>The stack arena\<close>

subsection \<open>Freeing\<close>

lemma possible_cpus_distinct: "distinct (possible_cpus k)"
  by (simp add: possible_cpus_def)

lemma u_free_sdei_stack_null:
  "percpu s ptr cpu = 0 \<Longrightarrow> u_free_sdei_stack ptr cpu s = s"
  by (simp add: u_free_sdei_stack_def)

lemma percpu_u_free_sdei_stack:
  "percpu (u_free_sdei_stack ptr cpu s) v c =
     (if v = ptr \<and> c = cpu then 0 else percpu s v c)"
  by (simp add: u_free_sdei_stack_def vfree_def set_per_cpu_def Let_def)

lemma live_u_free_sdei_stack:
  "vmalloc_live (u_free_sdei_stack ptr cpu s) =
     vmalloc_live s - ({percpu s ptr cpu} - {0})"
  by (auto simp add: u_free_sdei_stack_def vfree_def set_per_cpu_def Let_def)

lemma percpu_fold_free:
  "percpu (fold (\<lambda>cpu s. u_free_sdei_stack sdei_stack_critical_ptr cpu
                     (u_free_sdei_stack sdei_stack_normal_ptr cpu s)) cpus s) v c =
     (if c \<in> set cpus then 0 else percpu s v c)"
proof (induction cpus arbitrary: s v c)
  case Nil
  then show ?case by simp
next
  case (Cons a cpus)
  show ?case
    by (cases v) (simp_all add: Cons.IH percpu_u_free_sdei_stack)
qed

lemma live_fold_free:
  "vmalloc_live (fold (\<lambda>cpu s. u_free_sdei_stack sdei_stack_critical_ptr cpu
                     (u_free_sdei_stack sdei_stack_normal_ptr cpu s)) cpus s) =
     vmalloc_live s - ({percpu s v c | v c. c \<in> set cpus} - {0})"
proof (induction cpus arbitrary: s)
  case Nil
  then show ?case by simp
next
  case (Cons a cpus)
  show ?case
    apply (simp add: Cons.IH live_u_free_sdei_stack percpu_u_free_sdei_stack)
    apply (auto)
         apply (metis stack_var.exhaust)+
    done
qed


lemma frame_fold_free:
  "nalloc (fold (\<lambda>cpu s. u_free_sdei_stack sdei_stack_critical_ptr cpu
                     (u_free_sdei_stack sdei_stack_normal_ptr cpu s)) cpus s) = nalloc s \<and>
   sdei_exit_mode (fold (\<lambda>cpu s. u_free_sdei_stack sdei_stack_critical_ptr cpu
                     (u_free_sdei_stack sdei_stack_normal_ptr cpu s)) cpus s) = sdei_exit_mode s \<and>
   klog (fold (\<lambda>cpu s. u_free_sdei_stack sdei_stack_critical_ptr cpu
                     (u_free_sdei_stack sdei_stack_normal_ptr cpu s)) cpus s) = klog s"
  by (induction cpus arbitrary: s)
     (simp_all add: u_free_sdei_stack_def vfree_def set_per_cpu_def Let_def)

lemma fold_free_null:
  "(\<And>v c. c \<in> set cpus \<Longrightarrow> percpu s v c = 0) \<Longrightarrow>
   fold (\<lambda>cpu s. u_free_sdei_stack sdei_stack_critical_ptr cpu
                     (u_free_sdei_stack sdei_stack_normal_ptr cpu s)) cpus s = s"
  by (induction cpus arbitrary: s) (simp_all add: u_free_sdei_stack_null)

lemma u_init_sdei_stack_cases:
  "u_init_sdei_stack alloc k ptr cpu s = (err, s1) \<Longrightarrow>
     nalloc s1 = Suc (nalloc s) \<and> sdei_exit_mode s1 = sdei_exit_mode s \<and> klog s1 = klog s \<and>
     (if alloc (nalloc s) = 0
      then err = - ENOMEM k \<and> percpu s1 = percpu s \<and> vmalloc_live s1 = vmalloc_live s
      else err = 0 \<and> percpu s1 = (percpu s)(ptr := (percpu s ptr)(cpu := alloc (nalloc s))) \<and>
           vmalloc_live s1 = insert (alloc (nalloc s)) (vmalloc_live s))"
  by (auto simp add: u_init_sdei_stack_def arch_alloc_vmap_stack_def set_per_cpu_def Let_def
      split: if_splits)

lemma loop_frame:
  "init_sdei_stacks_loop alloc k cpus s = (err, s1) \<Longrightarrow>
     sdei_exit_mode s1 = sdei_exit_mode s \<and> klog s1 = klog s \<and> nalloc s \<le> nalloc s1 \<and>
     (\<forall>v c. c \<notin> set cpus \<longrightarrow> percpu s1 v c = percpu s v c)"
proof (induction cpus arbitrary: s err s1)
  case Nil
  then show ?case by simp
next
  case (Cons cpu cpus)
  obtain e1 t1 where n: "u_init_sdei_stack alloc k sdei_stack_normal_ptr cpu s = (e1, t1)"
    by (cases "u_init_sdei_stack alloc k sdei_stack_normal_ptr cpu s")
  obtain e2 t2 where c: "u_init_sdei_stack alloc k sdei_stack_critical_ptr cpu t1 = (e2, t2)"
    by (cases "u_init_sdei_stack alloc k sdei_stack_critical_ptr cpu t1")
  note fn = u_init_sdei_stack_cases [OF n]
  note fc = u_init_sdei_stack_cases [OF c]
  show ?case
  proof (cases "e1 \<noteq> 0")
    case True
    with Cons.prems n have "s1 = t1" by simp
    with fn show ?thesis by (auto split: if_splits)
  next
    case e1: False
    show ?thesis
    proof (cases "e2 \<noteq> 0")
      case True
      with Cons.prems n c e1 have "s1 = t2" by simp
      with fn fc show ?thesis by (auto split: if_splits)
    next
      case False
      with Cons.prems n c e1 have "init_sdei_stacks_loop alloc k cpus t2 = (err, s1)" by simp
      from Cons.IH [OF this] fn fc show ?thesis by (auto split: if_splits)
    qed
  qed
qed

lemma u_init_sdei_stack_live:
  "u_init_sdei_stack alloc k ptr cpu s = (err, s1) \<Longrightarrow>
     (\<forall>x \<in> vmalloc_live s1. x \<in> vmalloc_live s \<or> (x \<noteq> 0 \<and> x = percpu s1 ptr cpu)) \<and>
     (\<forall>v c. (v, c) \<noteq> (ptr, cpu) \<longrightarrow> percpu s1 v c = percpu s v c)"
  by (auto simp add: u_init_sdei_stack_def arch_alloc_vmap_stack_def set_per_cpu_def Let_def
      split: if_splits)

lemma loop_live:
  "init_sdei_stacks_loop alloc k cpus s = (err, s1) \<Longrightarrow> distinct cpus \<Longrightarrow>
     x \<in> vmalloc_live s1 \<Longrightarrow>
     x \<in> vmalloc_live s \<or> (x \<noteq> 0 \<and> (\<exists>v. \<exists>c \<in> set cpus. x = percpu s1 v c))"
proof (induction cpus arbitrary: s err s1)
  case Nil
  then show ?case by simp
next
  case (Cons cpu cpus)
  obtain e1 t1 where n: "u_init_sdei_stack alloc k sdei_stack_normal_ptr cpu s = (e1, t1)"
    by (cases "u_init_sdei_stack alloc k sdei_stack_normal_ptr cpu s")
  obtain e2 t2 where c: "u_init_sdei_stack alloc k sdei_stack_critical_ptr cpu t1 = (e2, t2)"
    by (cases "u_init_sdei_stack alloc k sdei_stack_critical_ptr cpu t1")
  from u_init_sdei_stack_live [OF n]
  have l1: "\<And>y. y \<in> vmalloc_live t1 \<Longrightarrow>
              y \<in> vmalloc_live s \<or> (y \<noteq> 0 \<and> y = percpu t1 sdei_stack_normal_ptr cpu)"
    by blast
  from u_init_sdei_stack_live [OF c]
  have l2: "\<And>y. y \<in> vmalloc_live t2 \<Longrightarrow>
              y \<in> vmalloc_live t1 \<or> (y \<noteq> 0 \<and> y = percpu t2 sdei_stack_critical_ptr cpu)"
    and k2: "percpu t2 sdei_stack_normal_ptr cpu = percpu t1 sdei_stack_normal_ptr cpu"
    by simp_all
  have both: "y \<in> vmalloc_live s \<or> (y \<noteq> 0 \<and> (\<exists>v. y = percpu t2 v cpu))"
    if "y \<in> vmalloc_live t2" for y
    using l2 [OF that] l1 [of y] k2 by metis
  from Cons.prems have fresh: "cpu \<notin> set cpus" and d: "distinct cpus" by simp_all
  show ?case
  proof (cases "e1 \<noteq> 0")
    case True
    with Cons.prems n have "s1 = t1" by simp
    with l1 [of x] Cons.prems(3) show ?thesis by auto
  next
    case e1: False
    show ?thesis
    proof (cases "e2 \<noteq> 0")
      case True
      with Cons.prems n c e1 have "s1 = t2" by simp
      with both [of x] Cons.prems(3) show ?thesis by auto
    next
      case False
      with Cons.prems n c e1 have l: "init_sdei_stacks_loop alloc k cpus t2 = (err, s1)" by simp
      from loop_frame [OF l] fresh
      have keep: "\<And>v. percpu s1 v cpu = percpu t2 v cpu" by simp
      from Cons.IH [OF l d Cons.prems(3)]
      show ?thesis
      proof
        assume "x \<in> vmalloc_live t2"
        from both [OF this] show ?thesis by (auto simp: keep)
      next
        assume "x \<noteq> 0 \<and> (\<exists>v. \<exists>c\<in>set cpus. x = percpu s1 v c)"
        then show ?thesis by auto
      qed
    qed
  qed
qed

lemma live_fold_free_iff:
  "x \<in> vmalloc_live (fold (\<lambda>cpu s. u_free_sdei_stack sdei_stack_critical_ptr cpu
                     (u_free_sdei_stack sdei_stack_normal_ptr cpu s)) cpus s) \<longleftrightarrow>
     x \<in> vmalloc_live s \<and> \<not> (x \<noteq> 0 \<and> (\<exists>v. \<exists>c \<in> set cpus. x = percpu s v c))"
  by (auto simp add: live_fold_free)

lemma ex_cpus: "possible_cpus example_config = [0, 1, 2]"
  by (simp add: possible_cpus_def example_config_def upt_rec)

lemma ex_init: "fst (init_sdei_stacks third_fails example_config boot_kernel) = - 12"
  by (simp add: init_sdei_stacks_def ex_cpus u_init_sdei_stack_def arch_alloc_vmap_stack_def
      third_fails_def boot_kernel_def set_per_cpu_def Let_def)
     (simp add: example_config_def)

lemma ex_free:
  "free_sdei_stacks example_config armed_kernel = boot_kernel\<lparr>nalloc := 2\<rparr>"
  by (simp add: free_sdei_stacks_def ex_cpus u_free_sdei_stack_def vfree_def set_per_cpu_def
      armed_kernel_def boot_kernel_def Let_def fun_eq_iff split: stack_var.splits)

subsection \<open>Rollback of a failed arming\<close>

text \<open>
  With a nonzero \<open>ENOMEM\<close>, \<open>init_sdei_stacks\<close> returns an error exactly when one of the
  allocation requests it can make (two for each possible processor) fails.
\<close>

lemma loop_fails_iff:
  "init_sdei_stacks_loop alloc k cpus s = (err, s1) \<Longrightarrow> ENOMEM k \<noteq> 0 \<Longrightarrow>
     (err \<noteq> 0 \<longleftrightarrow> (\<exists>i < 2 * length cpus. alloc (nalloc s + i) = 0))"
proof (induction cpus arbitrary: s err s1)
  case Nil
  then show ?case by simp
next
  case (Cons cpu cpus)
  obtain e1 t1 where n: "u_init_sdei_stack alloc k sdei_stack_normal_ptr cpu s = (e1, t1)"
    by (cases "u_init_sdei_stack alloc k sdei_stack_normal_ptr cpu s")
  obtain e2 t2 where c: "u_init_sdei_stack alloc k sdei_stack_critical_ptr cpu t1 = (e2, t2)"
    by (cases "u_init_sdei_stack alloc k sdei_stack_critical_ptr cpu t1")
  from u_init_sdei_stack_cases [OF n] Cons.prems(2)
  have e1: "e1 \<noteq> 0 \<longleftrightarrow> alloc (nalloc s) = 0" and n1: "nalloc t1 = Suc (nalloc s)"
    by (auto split: if_splits)
  from u_init_sdei_stack_cases [OF c] Cons.prems(2) n1
  have e2: "e2 \<noteq> 0 \<longleftrightarrow> alloc (Suc (nalloc s)) = 0" and n2: "nalloc t2 = Suc (Suc (nalloc s))"
    by (auto split: if_splits)
  have split: "(\<exists>i < 2 * length (cpu # cpus). alloc (nalloc s + i) = 0) \<longleftrightarrow>
                 alloc (nalloc s) = 0 \<or> alloc (Suc (nalloc s)) = 0 \<or>
                 (\<exists>i < 2 * length cpus. alloc (Suc (Suc (nalloc s)) + i) = 0)"
    (is "?L \<longleftrightarrow> ?R")
  proof
    assume ?L
    then obtain i where i: "i < 2 * length (cpu # cpus)" "alloc (nalloc s + i) = 0" by blast
    show ?R
    proof (cases "i < 2")
      case True
      then have "i = 0 \<or> i = 1" by arith
      with i show ?thesis by auto
    next
      case False
      then have "i - 2 < 2 * length cpus" "Suc (Suc (nalloc s)) + (i - 2) = nalloc s + i"
        using i(1) by simp_all
      with i(2) show ?thesis by metis
    qed
  next
    assume ?R
    then consider "alloc (nalloc s) = 0" | "alloc (Suc (nalloc s)) = 0"
      | i where "i < 2 * length cpus" "alloc (Suc (Suc (nalloc s)) + i) = 0"
      by blast
    then show ?L
    proof cases
      case 1
      then have "0 < 2 * length (cpu # cpus) \<and> alloc (nalloc s + 0) = 0" by simp
      then show ?thesis by blast
    next
      case 2
      then have "1 < 2 * length (cpu # cpus) \<and> alloc (nalloc s + 1) = 0" by simp
      then show ?thesis by blast
    next
      case 3
      then have "i + 2 < 2 * length (cpu # cpus) \<and> alloc (nalloc s + (i + 2)) = 0" by simp
      then show ?thesis by blast
    qed
  qed
  show ?case
  proof (cases "e1 \<noteq> 0")
    case True
    with Cons.prems n have "err = e1" by simp
    with True e1 split show ?thesis by simp
  next
    case f1: False
    show ?thesis
    proof (cases "e2 \<noteq> 0")
      case True
      with Cons.prems n c f1 have "err = e2" by simp
      with True e2 split show ?thesis by simp
    next
      case False
      with Cons.prems n c f1 have l: "init_sdei_stacks_loop alloc k cpus t2 = (err, s1)" by simp
      from Cons.IH [OF l Cons.prems(2)] n2 f1 False e1 e2 split show ?thesis by simp
    qed
  qed
qed

lemma init_sdei_stacks_fails_iff:
  "ENOMEM k \<noteq> 0 \<Longrightarrow>
     (fst (init_sdei_stacks alloc k s) \<noteq> 0 \<longleftrightarrow>
      (\<exists>i < 2 * length (possible_cpus k). alloc (nalloc s + i) = 0))"
proof -
  assume e: "ENOMEM k \<noteq> 0"
  obtain err s1 where l: "init_sdei_stacks_loop alloc k (possible_cpus k) s = (err, s1)"
    by (cases "init_sdei_stacks_loop alloc k (possible_cpus k) s")
  from loop_fails_iff [OF l e] l show ?thesis
    by (simp add: init_sdei_stacks_def)
qed

text \<open>
  C2. When \<open>init_sdei_stacks\<close> returns an error (an allocation for some possible
  processor failed), then on return both stack pointers of every possible processor
  are NULL, and every region that is still live was live before the call: all the
  regions the call allocated have been freed again.
\<close>

theorem init_sdei_stacks_rollback:
  "fst (init_sdei_stacks alloc k s) \<noteq> 0 \<Longrightarrow>
     (\<forall>cpu \<in> set (possible_cpus k). \<forall>v. percpu (snd (init_sdei_stacks alloc k s)) v cpu = 0) \<and>
     vmalloc_live (snd (init_sdei_stacks alloc k s)) \<subseteq> vmalloc_live s"
proof -
  assume f: "fst (init_sdei_stacks alloc k s) \<noteq> 0"
  obtain err s1 where l: "init_sdei_stacks_loop alloc k (possible_cpus k) s = (err, s1)"
    by (cases "init_sdei_stacks_loop alloc k (possible_cpus k) s")
  with f have e: "err \<noteq> 0" by (simp add: init_sdei_stacks_def split: if_splits)
  with l have r: "snd (init_sdei_stacks alloc k s) = free_sdei_stacks k s1"
    by (simp add: init_sdei_stacks_def)
  have "vmalloc_live (free_sdei_stacks k s1) \<subseteq> vmalloc_live s"
  proof
    fix x assume "x \<in> vmalloc_live (free_sdei_stacks k s1)"
    then have a: "x \<in> vmalloc_live s1"
      and b: "\<not> (x \<noteq> 0 \<and> (\<exists>v. \<exists>c \<in> set (possible_cpus k). x = percpu s1 v c))"
      by (simp_all add: free_sdei_stacks_def live_fold_free_iff)
    from loop_live [OF l possible_cpus_distinct a] b show "x \<in> vmalloc_live s" by blast
  qed
  then show ?thesis
    by (simp add: r free_sdei_stacks_def percpu_fold_free)
qed

theorem init_sdei_stacks_rollback_witness:
  "fst (init_sdei_stacks third_fails example_config boot_kernel) \<noteq> 0 \<and>
   percpu (snd (init_sdei_stacks third_fails example_config boot_kernel))
     sdei_stack_normal_ptr 0 = 0 \<and>
   percpu (snd (init_sdei_stacks third_fails example_config boot_kernel))
     sdei_stack_critical_ptr 0 = 0 \<and>
   percpu (snd (init_sdei_stacks third_fails example_config boot_kernel))
     sdei_stack_normal_ptr 1 = 0 \<and>
   vmalloc_live (snd (init_sdei_stacks third_fails example_config boot_kernel)) = {}"
proof -
  have f: "fst (init_sdei_stacks third_fails example_config boot_kernel) \<noteq> 0"
    by (simp add: ex_init)
  from init_sdei_stacks_rollback [OF f] f show ?thesis
    by (simp add: boot_kernel_def ex_cpus)
qed

subsection \<open>Disarming\<close>

text \<open>
  C8. \<open>free_sdei_stacks\<close> run twice leaves the state that one run leaves; after it both
  stack pointers of every possible processor are NULL and the regions they pointed to
  are no longer live; and \<open>_free_sdei_stack\<close> on a pointer that is NULL (never
  allocated, or freed already) changes nothing.
\<close>

theorem free_sdei_stacks_idempotent:
  "free_sdei_stacks k (free_sdei_stacks k s) = free_sdei_stacks k s \<and>
   (\<forall>cpu \<in> set (possible_cpus k). \<forall>v. percpu (free_sdei_stacks k s) v cpu = 0) \<and>
   vmalloc_live (free_sdei_stacks k s) =
     vmalloc_live s - ({percpu s v cpu | v cpu. cpu \<in> set (possible_cpus k)} - {0}) \<and>
   (\<forall>ptr cpu. percpu s ptr cpu = 0 \<longrightarrow> u_free_sdei_stack ptr cpu s = s)"
proof -
  have "free_sdei_stacks k (free_sdei_stacks k s) = free_sdei_stacks k s"
    unfolding free_sdei_stacks_def
    by (rule fold_free_null) (simp add: percpu_fold_free)
  then show ?thesis
    by (simp add: u_free_sdei_stack_null)
       (simp add: free_sdei_stacks_def percpu_fold_free live_fold_free)
qed

theorem free_sdei_stacks_idempotent_witness:
  "free_sdei_stacks example_config (free_sdei_stacks example_config armed_kernel) =
     boot_kernel\<lparr>nalloc := 2\<rparr> \<and>
   percpu (free_sdei_stacks example_config armed_kernel) sdei_stack_critical_ptr 0 = 0 \<and>
   percpu boot_kernel sdei_stack_normal_ptr 1 = 0 \<and>
   u_free_sdei_stack sdei_stack_normal_ptr 1 boot_kernel = boot_kernel"
proof -
  have z: "percpu boot_kernel sdei_stack_normal_ptr 1 = 0"
    by (simp add: boot_kernel_def)
  have m: "(0::nat) \<in> set (possible_cpus example_config)"
    by (simp add: ex_cpus)
  from free_sdei_stacks_idempotent [of example_config armed_kernel] m
  have "free_sdei_stacks example_config (free_sdei_stacks example_config armed_kernel) =
          free_sdei_stacks example_config armed_kernel"
    and "percpu (free_sdei_stacks example_config armed_kernel) sdei_stack_critical_ptr 0 = 0"
    by blast+
  moreover from free_sdei_stacks_idempotent [of example_config boot_kernel] z
  have "u_free_sdei_stack sdei_stack_normal_ptr 1 boot_kernel = boot_kernel"
    by blast
  ultimately show ?thesis using z by (simp add: ex_free)
qed

section \<open>The membership test\<close>

text \<open>
  C5. \<open>_on_sdei_stack\<close> holds of an address exactly when stack isolation is configured
  and the address lies in the half-open range from the base of the critical or of the
  normal stack of the running processor to that base plus \<open>SDEI_STACK_SIZE\<close>; without
  \<open>CONFIG_VMAP_STACK\<close> it is false for every address. The upper end is the 64-bit sum
  that the code computes.
\<close>

theorem on_sdei_stack_iff:
  "u_on_sdei_stack k s cpu addr \<longleftrightarrow>
     CONFIG_VMAP_STACK k \<and>
     (addr \<in> {percpu s sdei_stack_critical_ptr cpu ..<
                percpu s sdei_stack_critical_ptr cpu + SDEI_STACK_SIZE k} \<or>
      addr \<in> {percpu s sdei_stack_normal_ptr cpu ..<
                percpu s sdei_stack_normal_ptr cpu + SDEI_STACK_SIZE k})"
  by (auto simp add: u_on_sdei_stack_def Let_def)

text \<open>
  For a region that ends below the top of the address space the range is the one of
  the natural numbers.
\<close>

lemma half_open_unat:
  fixes base :: u64
  assumes "unat base + unat len < 2 ^ 64"
  shows "addr \<in> {base ..< base + len} \<longleftrightarrow>
           unat base \<le> unat addr \<and> unat addr < unat base + unat len"
proof -
  from assms have "unat (base + len) = unat base + unat len"
    by (simp add: unat_word_ariths)
  then show ?thesis
    by (simp add: word_le_nat_alt word_less_nat_alt)
qed

text \<open>
  C9. With stack isolation configured and both stack pointers of the running processor
  NULL, the test takes the base to be address 0: it holds exactly of the addresses
  below \<open>SDEI_STACK_SIZE\<close>.
\<close>

theorem on_sdei_stack_unarmed:
  "CONFIG_VMAP_STACK k \<Longrightarrow> percpu s sdei_stack_critical_ptr cpu = 0 \<Longrightarrow>
   percpu s sdei_stack_normal_ptr cpu = 0 \<Longrightarrow>
   u_on_sdei_stack k s cpu addr = (addr < SDEI_STACK_SIZE k)"
  by (auto simp add: u_on_sdei_stack_def Let_def)

theorem on_sdei_stack_unarmed_witness:
  "CONFIG_VMAP_STACK example_config \<and> percpu boot_kernel sdei_stack_critical_ptr 1 = 0 \<and>
   percpu boot_kernel sdei_stack_normal_ptr 1 = 0 \<and>
   (0x100 :: u64) < SDEI_STACK_SIZE example_config \<and>
   u_on_sdei_stack example_config boot_kernel 1 0x100"
proof -
  have a: "CONFIG_VMAP_STACK example_config" by (simp add: example_config_def)
  have b: "percpu boot_kernel sdei_stack_critical_ptr 1 = 0" by (simp add: boot_kernel_def)
  have c: "percpu boot_kernel sdei_stack_normal_ptr 1 = 0" by (simp add: boot_kernel_def)
  have d: "(0x100 :: u64) < SDEI_STACK_SIZE example_config" by (simp add: example_config_def)
  from on_sdei_stack_unarmed [OF a b c, of "0x100"] a b c d show ?thesis by simp
qed


section \<open>The entry-point resolver\<close>

lemma init_sdei_stacks_frame:
  "sdei_exit_mode (snd (init_sdei_stacks alloc k s)) = sdei_exit_mode s \<and>
   klog (snd (init_sdei_stacks alloc k s)) = klog s"
proof -
  obtain err s1 where l: "init_sdei_stacks_loop alloc k (possible_cpus k) s = (err, s1)"
    by (cases "init_sdei_stacks_loop alloc k (possible_cpus k) s")
  from loop_frame [OF l] l show ?thesis
    by (simp add: init_sdei_stacks_def free_sdei_stacks_def frame_fold_free)
qed

text \<open>
  C7, as stated, fails. Its condition is a kernel that runs below the higher privilege
  level and did not boot into it: \<open>is_hyp_mode_available\<close> and \<open>is_kernel_in_hyp_mode\<close>
  are both false. There the check of \<open>sdei_arch_get_entry_point\<close> is passed (a
  hypervisor is taken to marshal the events): with every allocation succeeding the
  resolver returns the address of the handler, which is not 0, and records the conduit.
\<close>

theorem sdei_arch_get_entry_point_booted_low_counterexample:
  "\<not> is_hyp_mode_available example_config \<and> \<not> is_kernel_in_hyp_mode example_config \<and>
   fst (sdei_arch_get_entry_point never_fails example_config 2 marked_kernel) =
     sdei_asm_handler example_config \<and>
   sdei_asm_handler example_config \<noteq> 0 \<and>
   sdei_exit_mode (snd (sdei_arch_get_entry_point never_fails example_config 2 marked_kernel)) =
     SDEI_EXIT_HVC example_config \<and>
   sdei_exit_mode marked_kernel \<noteq> SDEI_EXIT_HVC example_config"
proof -
  have bk: "marked_kernel =
              \<lparr>percpu = (\<lambda>v cpu. 0), vmalloc_live = {}, nalloc = 0, sdei_exit_mode = 7,
               klog = []\<rparr>"
    by (simp add: marked_kernel_def boot_kernel_def)
  have g: "fst (init_sdei_stacks never_fails example_config marked_kernel) = 0"
    unfolding bk
    by (simp add: init_sdei_stacks_def ex_cpus u_init_sdei_stack_def arch_alloc_vmap_stack_def
        never_fails_def set_per_cpu_def Let_def)
  have c: "CONFIG_VMAP_STACK example_config" "\<not> is_hyp_mode_available example_config"
          "\<not> is_kernel_in_hyp_mode example_config"
          "sdei_asm_handler example_config = 0xffff000008092000"
          "CONDUIT_HVC example_config = 2" "SDEI_EXIT_HVC example_config = 0"
          "sdei_exit_mode marked_kernel = 7"
    by (simp_all add: example_config_def marked_kernel_def)
  obtain err s1 where i: "init_sdei_stacks never_fails example_config marked_kernel = (err, s1)"
    by (cases "init_sdei_stacks never_fails example_config marked_kernel")
  with g have e: "err = 0" by simp
  from i e c show ?thesis
    by (simp add: sdei_arch_get_entry_point_def)
qed

text \<open>
  C7, amended. When the kernel was booted into the higher privilege level
  (\<open>is_hyp_mode_available\<close>) and does not run there (\<open>is_kernel_in_hyp_mode\<close> is false),
  \<open>sdei_arch_get_entry_point\<close> returns 0, the null entry address, and changes nothing
  but the log: no stack is allocated and no exit mode is recorded.
\<close>

theorem sdei_arch_get_entry_point_unsupported:
  "is_hyp_mode_available k \<Longrightarrow> \<not> is_kernel_in_hyp_mode k \<Longrightarrow>
   fst (sdei_arch_get_entry_point alloc k conduit s) = 0 \<and>
   snd (sdei_arch_get_entry_point alloc k conduit s) =
     s\<lparr>klog := klog s @
           [''sdei: Not supported on this hardware/boot configuration'' @ [CHR 0x0A]]\<rparr>"
  by (simp add: sdei_arch_get_entry_point_def pr_err_def)

theorem sdei_arch_get_entry_point_unsupported_witness:
  "is_hyp_mode_available no_hyp_config \<and> \<not> is_kernel_in_hyp_mode no_hyp_config \<and>
   sdei_arch_get_entry_point third_fails no_hyp_config 2 boot_kernel =
     (0, boot_kernel\<lparr>klog :=
           [''sdei: Not supported on this hardware/boot configuration'' @ [CHR 0x0A]]\<rparr>)"
proof -
  have a: "is_hyp_mode_available no_hyp_config"
    and b: "\<not> is_kernel_in_hyp_mode no_hyp_config"
    by (simp_all add: no_hyp_config_def example_config_def)
  from sdei_arch_get_entry_point_unsupported [OF a b, of third_fails 2 boot_kernel] a b
  show ?thesis
    by (simp add: prod_eq_iff boot_kernel_def)
qed

text \<open>
  C10. When the resolution fails, by the privilege check or by a failed arming of the
  stacks, it returns 0 and \<open>sdei_exit_mode\<close> keeps its value; otherwise it returns the
  address of the handler and \<open>sdei_exit_mode\<close> holds the exit mode of the conduit.
\<close>

theorem sdei_arch_get_entry_point_exit_mode:
  "((is_hyp_mode_available k \<and> \<not> is_kernel_in_hyp_mode k) \<or>
    (CONFIG_VMAP_STACK k \<and> fst (init_sdei_stacks alloc k s) \<noteq> 0) \<longrightarrow>
      fst (sdei_arch_get_entry_point alloc k conduit s) = 0 \<and>
      sdei_exit_mode (snd (sdei_arch_get_entry_point alloc k conduit s)) = sdei_exit_mode s) \<and>
   (\<not> (is_hyp_mode_available k \<and> \<not> is_kernel_in_hyp_mode k) \<and>
    \<not> (CONFIG_VMAP_STACK k \<and> fst (init_sdei_stacks alloc k s) \<noteq> 0) \<longrightarrow>
      fst (sdei_arch_get_entry_point alloc k conduit s) = sdei_asm_handler k \<and>
      sdei_exit_mode (snd (sdei_arch_get_entry_point alloc k conduit s)) =
        (if conduit = CONDUIT_HVC k then SDEI_EXIT_HVC k else SDEI_EXIT_SMC k))"
proof -
  obtain err s1 where i: "init_sdei_stacks alloc k s = (err, s1)"
    by (cases "init_sdei_stacks alloc k s")
  with init_sdei_stacks_frame [of alloc k s] have "sdei_exit_mode s1 = sdei_exit_mode s"
    by simp
  with i show ?thesis
    by (simp add: sdei_arch_get_entry_point_def pr_err_def)
qed

theorem sdei_arch_get_entry_point_exit_mode_witness:
  "sdei_exit_mode marked_kernel = 7 \<and>
   fst (sdei_arch_get_entry_point third_fails example_config 2
          marked_kernel) = 0 \<and>
   sdei_exit_mode (snd (sdei_arch_get_entry_point third_fails example_config 2
                          marked_kernel)) = 7 \<and>
   fst (sdei_arch_get_entry_point third_fails no_hyp_config 2
          marked_kernel) = 0 \<and>
   sdei_exit_mode (snd (sdei_arch_get_entry_point third_fails no_hyp_config 2
                          marked_kernel)) = 7 \<and>
   fst (sdei_arch_get_entry_point never_fails
          example_config 2 marked_kernel) = 0xffff000008092000 \<and>
   sdei_exit_mode (snd (sdei_arch_get_entry_point
                          never_fails
                          example_config 2 marked_kernel)) = 0"
proof -
  have bk: "marked_kernel =
              \<lparr>percpu = (\<lambda>v cpu. 0), vmalloc_live = {}, nalloc = 0, sdei_exit_mode = 7,
               klog = []\<rparr>"
    by (simp add: marked_kernel_def boot_kernel_def)
  have f: "fst (init_sdei_stacks third_fails example_config
                  marked_kernel) \<noteq> 0"
    unfolding bk
    by (simp add: init_sdei_stacks_def ex_cpus u_init_sdei_stack_def arch_alloc_vmap_stack_def
        third_fails_def set_per_cpu_def Let_def)
       (simp add: example_config_def)
  have g: "fst (init_sdei_stacks never_fails example_config
                  marked_kernel) = 0"
    unfolding bk
    by (simp add: init_sdei_stacks_def ex_cpus u_init_sdei_stack_def arch_alloc_vmap_stack_def
        never_fails_def set_per_cpu_def Let_def)
  have c: "CONFIG_VMAP_STACK example_config" "\<not> is_hyp_mode_available example_config"
          "is_hyp_mode_available no_hyp_config" "\<not> is_kernel_in_hyp_mode no_hyp_config"
          "sdei_asm_handler example_config = 0xffff000008092000"
          "CONDUIT_HVC example_config = 2" "SDEI_EXIT_HVC example_config = 0"
          "sdei_exit_mode marked_kernel = 7"
    by (simp_all add: example_config_def no_hyp_config_def marked_kernel_def)
  from sdei_arch_get_entry_point_exit_mode
         [of example_config third_fails marked_kernel 2] f c
  have 1: "fst (sdei_arch_get_entry_point third_fails example_config 2
                  marked_kernel) = 0 \<and>
           sdei_exit_mode (snd (sdei_arch_get_entry_point third_fails example_config 2
                          marked_kernel)) = 7"
    by simp
  from sdei_arch_get_entry_point_exit_mode
         [of no_hyp_config third_fails marked_kernel 2] c
  have 2: "fst (sdei_arch_get_entry_point third_fails no_hyp_config 2
                  marked_kernel) = 0 \<and>
           sdei_exit_mode (snd (sdei_arch_get_entry_point third_fails no_hyp_config 2
                          marked_kernel)) = 7"
    by simp
  from sdei_arch_get_entry_point_exit_mode
         [of example_config never_fails
             marked_kernel 2] g c
  have 3: "fst (sdei_arch_get_entry_point never_fails
                  example_config 2 marked_kernel) = 0xffff000008092000 \<and>
           sdei_exit_mode (snd (sdei_arch_get_entry_point
                          never_fails
                          example_config 2 marked_kernel)) = 0"
    by simp
  from 1 2 3 c(8) show ?thesis by simp
qed

section \<open>The dispatcher\<close>

subsection \<open>The register repair\<close>

lemma retrieve_registers_eq:
  "retrieve_registers col r =
     r\<lparr>regs := (regs r)[0 := sdei_api_event_context col 0, 1 := sdei_api_event_context col 1,
                        2 := sdei_api_event_context col 2, 3 := sdei_api_event_context col 3]\<rparr>"
  by (simp add: retrieve_registers_def upt_rec numeral_2_eq_2 numeral_3_eq_3)

lemma retrieve_registers_frame:
  "pstate (retrieve_registers col r) = pstate r \<and> sp (retrieve_registers col r) = sp r \<and>
   pc (retrieve_registers col r) = pc r \<and>
   length (regs (retrieve_registers col r)) = length (regs r) \<and>
   (\<forall>i. 4 \<le> i \<longrightarrow> regs (retrieve_registers col r) ! i = regs r ! i)"
  by (simp add: retrieve_registers_eq)

lemma retrieve_registers_supplied:
  "4 \<le> length (regs r) \<Longrightarrow> i < 4 \<Longrightarrow>
   regs (retrieve_registers col r) ! i = sdei_api_event_context col i"
proof -
  assume l: "4 \<le> length (regs r)" and i: "i < 4"
  from i have "i = 0 \<or> i = 1 \<or> i = 2 \<or> i = 3" by arith
  moreover from l have "regs r \<noteq> []" by auto
  ultimately show ?thesis using l
    by (auto simp add: retrieve_registers_eq nth_list_update)
qed

lemma ex_modes:
  "dispatcher_mode example_cpu = 5"
  "interrupted_mode example_config (r\<lparr>pstate := 0x3c5\<rparr>) = 5"
  "interrupted_mode example_config (r\<lparr>pstate := 0x5\<rparr>) = 5"
  "interrupted_mode example_config (r\<lparr>pstate := 0x10\<rparr>) = 0x10"
  "interrupted_mode example_config (r\<lparr>pstate := 0\<rparr>) = 0"
  "interrupts_enabled example_config (r\<lparr>pstate := 0x3c5\<rparr>) = False"
  "interrupts_enabled example_config (r\<lparr>pstate := 0x5\<rparr>) = True"
  "interrupts_enabled example_config (r\<lparr>pstate := 0\<rparr>) = True"
  "PSR_MODE32_BIT example_config = 0x10"
  by (simp_all add: dispatcher_mode_def interrupted_mode_def interrupts_enabled_def
      example_cpu_def example_config_def)

subsection \<open>The disposition\<close>

text \<open>
  C1. When the callback succeeds, the value that \<open>_sdei_handler\<close> returns follows from
  the mode bits and the interrupt mask of the \<open>pstate\<close> in the context (as it stands when
  the callback has returned, where the code reads it): \<open>SDEI_EV_HANDLED\<close> for the
  dispatcher's own mode with interrupts masked; the vector base plus 0x280 for that mode
  with interrupts enabled; otherwise the vector base plus 0x680 when the 32-bit bit is
  set and the vector base plus 0x480 when it is not.
\<close>

theorem sdei_handler_disposition:
  assumes "sdei_event_handler col arg (retrieve_registers col r) (elr_el1 c) = (0, r2, elr')"
  shows "(interrupted_mode k r2 = dispatcher_mode c \<and> \<not> interrupts_enabled k r2 \<longrightarrow>
            fst (u_sdei_handler col k arg (r, c)) = SDEI_EV_HANDLED k) \<and>
         (interrupted_mode k r2 = dispatcher_mode c \<and> interrupts_enabled k r2 \<longrightarrow>
            fst (u_sdei_handler col k arg (r, c)) = vbar_el1 c + 0x280) \<and>
         (interrupted_mode k r2 \<noteq> dispatcher_mode c \<and>
          interrupted_mode k r2 AND PSR_MODE32_BIT k \<noteq> 0 \<longrightarrow>
            fst (u_sdei_handler col k arg (r, c)) = vbar_el1 c + 0x680) \<and>
         (interrupted_mode k r2 \<noteq> dispatcher_mode c \<and>
          interrupted_mode k r2 AND PSR_MODE32_BIT k = 0 \<longrightarrow>
            fst (u_sdei_handler col k arg (r, c)) = vbar_el1 c + 0x480)"
  using assms by (simp add: u_sdei_handler_def Let_def)

theorem sdei_handler_disposition_witness:
  "fst (u_sdei_handler ok_collab example_config () (user_regs\<lparr>pstate := 0x3c5\<rparr>, example_cpu))
     = SDEI_EV_HANDLED example_config \<and>
   fst (u_sdei_handler ok_collab example_config () (user_regs\<lparr>pstate := 0x5\<rparr>, example_cpu))
     = 0xffff000008081280 \<and>
   fst (u_sdei_handler ok_collab example_config () (user_regs\<lparr>pstate := 0x10\<rparr>, example_cpu))
     = 0xffff000008081680 \<and>
   fst (u_sdei_handler ok_collab example_config () (user_regs\<lparr>pstate := 0\<rparr>, example_cpu))
     = 0xffff000008081480"
proof -
  have cb: "sdei_event_handler ok_collab () (retrieve_registers ok_collab (user_regs\<lparr>pstate := p\<rparr>))
              (elr_el1 example_cpu) =
            (0, (retrieve_registers ok_collab user_regs)\<lparr>pstate := p\<rparr>, elr_el1 example_cpu)" for p
    by (simp add: ok_collab_def retrieve_registers_eq)
  have v: "vbar_el1 example_cpu = 0xffff000008081000" by (simp add: example_cpu_def)
  from sdei_handler_disposition [OF cb, of example_config "0x3c5"]
       sdei_handler_disposition [OF cb, of example_config "0x5"]
       sdei_handler_disposition [OF cb, of example_config "0x10"]
       sdei_handler_disposition [OF cb, of example_config "0"]
  show ?thesis
    by (simp add: ex_modes v)
qed

subsection \<open>What is read before and what after the callback\<close>

text \<open>
  C6, as stated, fails: the disposition is not computed from the mode bits and the
  interrupt flag that the context held on entry. A callback that succeeds and writes the
  saved \<open>pstate\<close> of an interrupted user context to "EL1h, interrupts masked" makes
  \<open>_sdei_handler\<close> return \<open>SDEI_EV_HANDLED\<close>, where the values on entry give the vector
  base plus 0x480.
\<close>

theorem sdei_handler_snapshot_counterexample:
  "fst (sdei_event_handler remasking_collab ()
          (retrieve_registers remasking_collab user_regs) (elr_el1 example_cpu)) = 0 \<and>
   fst (u_sdei_handler remasking_collab example_config () (user_regs, example_cpu)) =
     SDEI_EV_HANDLED example_config \<and>
   spec_disposition example_config (dispatcher_mode example_cpu) (vbar_el1 example_cpu)
     (interrupted_mode example_config user_regs) (interrupts_enabled example_config user_regs) =
     vbar_el1 example_cpu + 0x480 \<and>
   vbar_el1 example_cpu + 0x480 \<noteq> SDEI_EV_HANDLED example_config"
proof -
  have u: "user_regs = user_regs\<lparr>pstate := 0\<rparr>" by (simp add: user_regs_def)
  have m: "interrupted_mode example_config user_regs = 0"
          "interrupts_enabled example_config user_regs"
    using ex_modes(5) [of user_regs] ex_modes(8) [of user_regs] u by simp_all
  have "fst (u_sdei_handler remasking_collab example_config () (user_regs, example_cpu)) =
          SDEI_EV_HANDLED example_config"
    by (simp add: u_sdei_handler_def remasking_collab_def Let_def ex_modes)
  moreover have "vbar_el1 example_cpu + 0x480 \<noteq> SDEI_EV_HANDLED example_config"
    by (simp add: example_cpu_def example_config_def)
  ultimately show ?thesis
    by (simp add: spec_disposition_def m ex_modes) (simp add: remasking_collab_def)
qed

text \<open>
  C6, amended. The dispatcher's own mode, the vector base and ELR_EL1 are read on
  entry: the result is built from the first two, and the warning is logged exactly when
  ELR_EL1 after the callback differs from its value on entry. The mode bits and the
  interrupt flag are read from the context after the callback has returned, and the
  disposition is computed from them. The register repair leaves \<open>pstate\<close> as it was, so
  when the callback leaves \<open>pstate\<close> unchanged too, the disposition is the one of the
  values on entry.
\<close>

theorem sdei_handler_disposition_after_callback:
  assumes "sdei_event_handler col arg (retrieve_registers col r) (elr_el1 c) = (0, r2, elr')"
  shows "fst (u_sdei_handler col k arg (r, c)) =
           spec_disposition k (dispatcher_mode c) (vbar_el1 c)
             (interrupted_mode k r2) (interrupts_enabled k r2) \<and>
         trace (snd (snd (u_sdei_handler col k arg (r, c)))) =
           trace c @ (if elr_el1 c \<noteq> elr'
                      then [Warn (''sdei: unsafe: exception during handler'' @ [CHR 0x0A])]
                      else []) \<and>
         pstate (retrieve_registers col r) = pstate r \<and>
         (pstate r2 = pstate r \<longrightarrow>
            fst (u_sdei_handler col k arg (r, c)) =
              spec_disposition k (dispatcher_mode c) (vbar_el1 c)
                (interrupted_mode k r) (interrupts_enabled k r))"
  using assms
  by (simp add: u_sdei_handler_def Let_def spec_disposition_def pr_warn_def
      retrieve_registers_frame interrupted_mode_def interrupts_enabled_def)

theorem sdei_handler_disposition_after_callback_witness:
  "fst (u_sdei_handler remasking_collab example_config () (user_regs, example_cpu)) =
     SDEI_EV_HANDLED example_config \<and>
   fst (u_sdei_handler ok_collab example_config () (user_regs, example_cpu)) =
     vbar_el1 example_cpu + 0x480"
proof -
  have cb1: "sdei_event_handler remasking_collab () (retrieve_registers remasking_collab user_regs)
               (elr_el1 example_cpu) =
             (0, (retrieve_registers remasking_collab user_regs)\<lparr>pstate := 0x3c5\<rparr>,
              elr_el1 example_cpu)"
    by (simp add: remasking_collab_def)
  have cb2: "sdei_event_handler ok_collab () (retrieve_registers ok_collab user_regs)
               (elr_el1 example_cpu) =
             (0, retrieve_registers ok_collab user_regs, elr_el1 example_cpu)"
    by (simp add: ok_collab_def)
  have u: "user_regs = user_regs\<lparr>pstate := 0\<rparr>" by (simp add: user_regs_def)
  have m: "interrupted_mode example_config user_regs = 0"
          "interrupts_enabled example_config user_regs"
    using ex_modes(5) [of user_regs] ex_modes(8) [of user_regs] u by simp_all
  have p: "pstate (retrieve_registers ok_collab user_regs) = pstate user_regs"
    by (simp add: retrieve_registers_frame)
  from sdei_handler_disposition_after_callback [OF cb1, of example_config]
  have "fst (u_sdei_handler remasking_collab example_config () (user_regs, example_cpu)) =
          SDEI_EV_HANDLED example_config"
    by (simp add: spec_disposition_def ex_modes)
  moreover
  from sdei_handler_disposition_after_callback [OF cb2, of example_config] p
  have "fst (u_sdei_handler ok_collab example_config () (user_regs, example_cpu)) =
          spec_disposition example_config (dispatcher_mode example_cpu) (vbar_el1 example_cpu)
            (interrupted_mode example_config user_regs)
            (interrupts_enabled example_config user_regs)"
    by blast
  then have "fst (u_sdei_handler ok_collab example_config () (user_regs, example_cpu)) =
          vbar_el1 example_cpu + 0x480"
    by (simp add: spec_disposition_def ex_modes m)
  ultimately show ?thesis by simp
qed

subsection \<open>A failing callback\<close>

lemma ex_clobbering:
  "u_sdei_handler clobbering_collab example_config () (example_regs, example_cpu) =
     (1, (retrieve_registers clobbering_collab example_regs)
           \<lparr>regs := (regs (retrieve_registers clobbering_collab example_regs))[0 := 0xdead]\<rparr>,
      example_cpu\<lparr>pstate_pan := True\<rparr>)"
  by (simp add: u_sdei_handler_def clobbering_collab_def example_config_def example_cpu_def
      Let_def)

text \<open>
  C4, as stated, fails: the callback gets the context by a pointer it can write
  through. A callback that overwrites register 0 and then reports failure leaves a
  context whose register 0 is not the value the firmware query supplied.
\<close>

theorem sdei_handler_failed_regs_counterexample:
  "fst (sdei_event_handler clobbering_collab ()
          (retrieve_registers clobbering_collab example_regs) (elr_el1 example_cpu)) \<noteq> 0 \<and>
   fst (u_sdei_handler clobbering_collab example_config () (example_regs, example_cpu)) =
     SDEI_EV_FAILED example_config \<and>
   sdei_api_event_context clobbering_collab 0 = 0x100 \<and>
   regs (fst (snd (u_sdei_handler clobbering_collab example_config ()
                     (example_regs, example_cpu)))) ! 0 = 0xdead"
  by (simp add: ex_clobbering)
     (simp add: clobbering_collab_def example_config_def example_regs_def
        retrieve_registers_eq)

text \<open>
  C4, amended. When the callback reports failure, \<open>_sdei_handler\<close> returns
  \<open>SDEI_EV_FAILED\<close> at once: nothing is logged and the context is exactly the one the
  callback left. The callback was given the context with registers 0 to 3 holding the
  values of the firmware query; if it leaves these four registers unchanged, they hold
  those values when the dispatcher returns.
\<close>

theorem sdei_handler_failed:
  assumes "sdei_event_handler col arg (retrieve_registers col r) (elr_el1 c) = (err, r2, elr')"
    and "err \<noteq> 0" and "4 \<le> length (regs r)"
  shows "fst (u_sdei_handler col k arg (r, c)) = SDEI_EV_FAILED k \<and>
         fst (snd (u_sdei_handler col k arg (r, c))) = r2 \<and>
         trace (snd (snd (u_sdei_handler col k arg (r, c)))) = trace c \<and>
         (\<forall>i<4. regs (retrieve_registers col r) ! i = sdei_api_event_context col i) \<and>
         ((\<forall>i<4. regs r2 ! i = regs (retrieve_registers col r) ! i) \<longrightarrow>
          (\<forall>i<4. regs (fst (snd (u_sdei_handler col k arg (r, c)))) ! i =
                   sdei_api_event_context col i))"
proof -
  from assms(1,2) have "u_sdei_handler col k arg (r, c) =
      (SDEI_EV_FAILED k, r2,
       c\<lparr>pstate_pan := (if cpu_has_pan k then True else pstate_pan c), elr_el1 := elr'\<rparr>)"
    by (simp add: u_sdei_handler_def Let_def)
  with retrieve_registers_supplied [OF assms(3), of _ col] show ?thesis
    by simp
qed

theorem sdei_handler_failed_witness:
  "fst (u_sdei_handler failing_collab example_config () (example_regs, example_cpu)) =
     SDEI_EV_FAILED example_config \<and>
   regs (fst (snd (u_sdei_handler failing_collab example_config ()
                     (example_regs, example_cpu)))) ! 0 = 0x100 \<and>
   regs (fst (snd (u_sdei_handler failing_collab example_config ()
                     (example_regs, example_cpu)))) ! 3 = 0x103"
proof -
  have cb: "sdei_event_handler failing_collab () (retrieve_registers failing_collab example_regs)
              (elr_el1 example_cpu) =
            (- 22, retrieve_registers failing_collab example_regs, elr_el1 example_cpu)"
    by (simp add: failing_collab_def)
  have ne: "(- 22 :: u32) \<noteq> 0" by simp
  have len: "4 \<le> length (regs example_regs)" by (simp add: example_regs_def)
  have s: "sdei_api_event_context failing_collab 0 = 0x100"
          "sdei_api_event_context failing_collab 3 = 0x103"
    by (simp_all add: failing_collab_def)
  from sdei_handler_failed [OF cb ne len, of example_config]
  have "fst (u_sdei_handler failing_collab example_config () (example_regs, example_cpu)) =
          SDEI_EV_FAILED example_config"
    and "\<forall>i<4. regs (fst (snd (u_sdei_handler failing_collab example_config ()
                     (example_regs, example_cpu)))) ! i = sdei_api_event_context failing_collab i"
    by simp_all
  then show ?thesis using s by auto
qed

section \<open>The reentrancy wrapper\<close>

lemma u_sdei_handler_accounting:
  "nmi (snd (snd (u_sdei_handler col k arg (r, c)))) = nmi c \<and>
   accounting_calls (snd (snd (u_sdei_handler col k arg (r, c)))) = accounting_calls c"
  by (simp add: u_sdei_handler_def Let_def pr_warn_def accounting_calls_def
      split: prod.splits)

lemma ex_failing:
  "u_sdei_handler failing_collab example_config () (user_regs, c) =
     (1, retrieve_registers failing_collab user_regs, c\<lparr>pstate_pan := True\<rparr>)"
  by (simp add: u_sdei_handler_def failing_collab_def example_config_def Let_def)

text \<open>
  C3. On a processor already flagged as in NMI context, \<open>__sdei_handler\<close> is
  \<open>_sdei_handler\<close>: same result, same state, no call of \<open>nmi_enter\<close> or \<open>nmi_exit\<close>, the
  flag still set. On a processor not flagged, the dispatcher runs on the flagged state,
  its result and context are returned, and the final state is the one after \<open>nmi_exit\<close>:
  unflagged, with exactly one \<open>nmi_enter\<close> and one \<open>nmi_exit\<close> added to the accounting
  calls, whatever the dispatcher returns.
\<close>

theorem sdei_handler_nmi_accounting:
  "(in_nmi c \<longrightarrow>
      uu_sdei_handler col k arg (r, c) = u_sdei_handler col k arg (r, c) \<and>
      in_nmi (snd (snd (uu_sdei_handler col k arg (r, c)))) \<and>
      accounting_calls (snd (snd (uu_sdei_handler col k arg (r, c)))) = accounting_calls c) \<and>
   (\<not> in_nmi c \<longrightarrow>
      in_nmi (nmi_enter c) \<and>
      fst (uu_sdei_handler col k arg (r, c)) = fst (u_sdei_handler col k arg (r, nmi_enter c)) \<and>
      fst (snd (uu_sdei_handler col k arg (r, c))) =
        fst (snd (u_sdei_handler col k arg (r, nmi_enter c))) \<and>
      snd (snd (uu_sdei_handler col k arg (r, c))) =
        nmi_exit (snd (snd (u_sdei_handler col k arg (r, nmi_enter c)))) \<and>
      \<not> in_nmi (snd (snd (uu_sdei_handler col k arg (r, c)))) \<and>
      accounting_calls (snd (snd (uu_sdei_handler col k arg (r, c)))) =
        accounting_calls c @ [NmiEnter, NmiExit])"
proof (cases "in_nmi c")
  case True
  then have "uu_sdei_handler col k arg (r, c) = u_sdei_handler col k arg (r, c)"
    by (simp add: uu_sdei_handler_def Let_def split: prod.splits)
  with True u_sdei_handler_accounting [of col k arg r c] show ?thesis
    by (simp add: in_nmi_def)
next
  case False
  obtain ret r2 c2 where d: "u_sdei_handler col k arg (r, nmi_enter c) = (ret, r2, c2)"
    by (cases "u_sdei_handler col k arg (r, nmi_enter c)")
  with False have w: "uu_sdei_handler col k arg (r, c) = (ret, r2, nmi_exit c2)"
    by (simp add: uu_sdei_handler_def Let_def)
  from u_sdei_handler_accounting [of col k arg r "nmi_enter c"] d
  have "accounting_calls c2 = accounting_calls c @ [NmiEnter]"
    by (simp add: accounting_calls_def nmi_enter_def)
  then have "accounting_calls (nmi_exit c2) = accounting_calls c @ [NmiEnter, NmiExit]"
    by (simp add: accounting_calls_def nmi_exit_def)
  with False w d show ?thesis
    by (simp add: in_nmi_def nmi_enter_def nmi_exit_def)
qed

theorem sdei_handler_nmi_accounting_witness:
  "in_nmi (example_cpu\<lparr>nmi := True\<rparr>) \<and>
   uu_sdei_handler failing_collab example_config () (user_regs, example_cpu\<lparr>nmi := True\<rparr>) =
     (SDEI_EV_FAILED example_config, retrieve_registers failing_collab user_regs,
      example_cpu\<lparr>pstate_pan := True, nmi := True\<rparr>) \<and>
   \<not> in_nmi example_cpu \<and>
   uu_sdei_handler failing_collab example_config () (user_regs, example_cpu) =
     (SDEI_EV_FAILED example_config, retrieve_registers failing_collab user_regs,
      example_cpu\<lparr>pstate_pan := True, trace := [NmiEnter, NmiExit]\<rparr>)"
proof -
  have a: "in_nmi (example_cpu\<lparr>nmi := True\<rparr>)" by (simp add: in_nmi_def)
  have b: "\<not> in_nmi example_cpu" by (simp add: in_nmi_def example_cpu_def)
  have f: "SDEI_EV_FAILED example_config = 1" by (simp add: example_config_def)
  from sdei_handler_nmi_accounting
         [of "example_cpu\<lparr>nmi := True\<rparr>" failing_collab example_config "()" user_regs] a
  have "uu_sdei_handler failing_collab example_config () (user_regs, example_cpu\<lparr>nmi := True\<rparr>) =
          u_sdei_handler failing_collab example_config () (user_regs, example_cpu\<lparr>nmi := True\<rparr>)"
    by blast
  moreover
  from sdei_handler_nmi_accounting
         [of example_cpu failing_collab example_config "()" user_regs] b
  have "fst (uu_sdei_handler failing_collab example_config () (user_regs, example_cpu)) =
          fst (u_sdei_handler failing_collab example_config () (user_regs, nmi_enter example_cpu))"
    and "fst (snd (uu_sdei_handler failing_collab example_config () (user_regs, example_cpu))) =
          fst (snd (u_sdei_handler failing_collab example_config () (user_regs, nmi_enter example_cpu)))"
    and "snd (snd (uu_sdei_handler failing_collab example_config () (user_regs, example_cpu))) =
          nmi_exit (snd (snd (u_sdei_handler failing_collab example_config ()
                                (user_regs, nmi_enter example_cpu))))"
    by blast+
  then have "uu_sdei_handler failing_collab example_config () (user_regs, example_cpu) =
          (1, retrieve_registers failing_collab user_regs,
           nmi_exit ((nmi_enter example_cpu)\<lparr>pstate_pan := True\<rparr>))"
    by (simp add: ex_failing prod_eq_iff)
  ultimately show ?thesis using a b
    by (simp add: ex_failing f nmi_enter_def nmi_exit_def example_cpu_def)
qed

end
